theory Spec2Isabelle
  imports Complex_Main "HOL-Library.Word"
begin

section \<open>The interval timer of Timer.hpp and Timer.cpp\<close>

text \<open>
  The class \<^verbatim>\<open>Timer\<close> has four data members. Every member function that reads the
  clock calls \<^verbatim>\<open>millis()\<close>, which is declared in \<^verbatim>\<open>Arduino.h\<close> and returns
  an unsigned number of milliseconds; wherever the code uses a reading it is converted to
  an unsigned 64-bit value (the other operand is the \<^verbatim>\<open>uint64_t\<close> member
  \<^verbatim>\<open>mMillisStartPeriod\<close>). Each call of \<^verbatim>\<open>millis()\<close> in the source is one
  argument of type \<open>u64\<close> of the model, so a member function that reads the clock twice
  takes two readings.
\<close>

type_synonym u16 = "16 word"
type_synonym u32 = "32 word"
type_synonym u64 = "64 word"

record Timer =
  mMillisStartPeriod :: u64
  mMillisInterval :: u32
  mOverrideIntervalReached :: bool
  mActivated :: bool

definition TIMER_CONTINUE :: bool where
  "TIMER_CONTINUE = False"

definition TIMER_RESET :: bool where
  "TIMER_RESET = True"

definition UINT32_MAX :: u32 where
  "UINT32_MAX = 4294967295"

text \<open>\<^verbatim>\<open>Timer::ResetInterval()\<close>: clears the override, then reads the clock.\<close>

definition ResetInterval :: "Timer \<Rightarrow> u64 \<Rightarrow> Timer" where
  "ResetInterval s now =
     s\<lparr>mOverrideIntervalReached := False, mMillisStartPeriod := now\<rparr>"

text \<open>
  \<^verbatim>\<open>Timer::Timer(uint32_t)\<close>: the default member initialisers read the clock once
  (\<^verbatim>\<open>mMillisStartPeriod{millis()}\<close>), clear the override and set the timer active.
\<close>

definition Timer_new :: "u32 \<Rightarrow> u64 \<Rightarrow> Timer" where
  "Timer_new intervalInMillis now =
     \<lparr>mMillisStartPeriod = now, mMillisInterval = intervalInMillis,
      mOverrideIntervalReached = False, mActivated = True\<rparr>"

text \<open>\<^verbatim>\<open>Timer::Activate()\<close> and \<^verbatim>\<open>Timer::Deactivate()\<close>.\<close>

definition Activate :: "Timer \<Rightarrow> u64 \<Rightarrow> Timer" where
  "Activate s now = (ResetInterval s now)\<lparr>mActivated := True\<rparr>"

definition Deactivate :: "Timer \<Rightarrow> u64 \<Rightarrow> Timer" where
  "Deactivate s now = (ResetInterval s now)\<lparr>mActivated := False\<rparr>"

text \<open>
  \<^verbatim>\<open>Timer::Timer()\<close> delegates to \<^verbatim>\<open>Timer(numeric_limits<uint32_t>::max())\<close>
  and then calls \<^verbatim>\<open>Deactivate()\<close>: two clock readings.
\<close>

definition Timer_default :: "u64 \<Rightarrow> u64 \<Rightarrow> Timer" where
  "Timer_default now_init now_deactivate =
     Deactivate (Timer_new UINT32_MAX now_init) now_deactivate"

text \<open>
  \<^verbatim>\<open>Timer::IntervalReached()\<close>. The sum \<^verbatim>\<open>mMillisStartPeriod + mMillisInterval\<close>
  is a \<^verbatim>\<open>uint64_t\<close> (the interval is zero-extended, the sum wraps modulo \<open>2 ^ 64\<close>)
  and the comparison is unsigned. The clock is read for the comparison (\<open>now_check\<close>,
  not read at all when the override short-circuits the disjunction) and again inside
  \<^verbatim>\<open>ResetInterval()\<close> (\<open>now_reset\<close>). The result is the returned flag and the
  timer after the call.
\<close>

definition IntervalReached :: "Timer \<Rightarrow> u64 \<Rightarrow> u64 \<Rightarrow> bool \<times> Timer" where
  "IntervalReached s now_check now_reset =
     (if \<not> mActivated s then (False, s)
      else if mOverrideIntervalReached s
              \<or> mMillisStartPeriod s + ucast (mMillisInterval s) < now_check
           then (True, ResetInterval s now_reset)
      else (False, s))"

text \<open>\<^verbatim>\<open>Timer::SetInterval(uint32_t, bool)\<close>.\<close>

definition SetInterval :: "Timer \<Rightarrow> u32 \<Rightarrow> bool \<Rightarrow> u64 \<Rightarrow> Timer" where
  "SetInterval s millisInterval resetTimer now =
     (let s1 = s\<lparr>mMillisInterval := millisInterval\<rparr>;
          s2 = (if TIMER_RESET = resetTimer then ResetInterval s1 now else s1)
      in s2\<lparr>mActivated := True\<rparr>)"

text \<open>\<^verbatim>\<open>Timer::OverrideIntervalReached()\<close>.\<close>

definition OverrideIntervalReached :: "Timer \<Rightarrow> Timer" where
  "OverrideIntervalReached s = s\<lparr>mOverrideIntervalReached := True\<rparr>"

text \<open>The inline accessors \<^verbatim>\<open>IsActive()\<close> and \<^verbatim>\<open>GetInterval()\<close>.\<close>

definition IsActive :: "Timer \<Rightarrow> bool" where
  "IsActive s = mActivated s"

definition GetInterval :: "Timer \<Rightarrow> u32" where
  "GetInterval s = mMillisInterval s"

text \<open>
  The caller's loop (\<^verbatim>\<open>loop()\<close> of examples/main.cpp) polls
  \<^verbatim>\<open>IntervalReached()\<close> again and again. \<open>poll\<close> runs one call for each pair of
  clock readings of the list, in order, and returns the flags with the final timer.
\<close>

fun poll :: "Timer \<Rightarrow> (u64 \<times> u64) list \<Rightarrow> bool list \<times> Timer" where
  "poll s [] = ([], s)"
| "poll s ((now_check, now_reset) # ts) =
     (let (r, s1) = IntervalReached s now_check now_reset;
          (rs, s2) = poll s1 ts
      in (r # rs, s2))"

subsection \<open>Narrowing conversions\<close>

text \<open>
  The template \<^verbatim>\<open>NarrowConvertToUint32<T>\<close> is used at two types. In
  \<^verbatim>\<open>TimeLeftInMillis()\<close> the argument is
  \<^verbatim>\<open>mMillisStartPeriod + static_cast<int64_t>(mMillisInterval) - millis()\<close>: the
  left operand is a \<^verbatim>\<open>uint64_t\<close>, so the usual arithmetic conversions turn the
  \<^verbatim>\<open>int64_t\<close> and the clock reading into \<^verbatim>\<open>uint64_t\<close> and \<^verbatim>\<open>T\<close> is
  \<^verbatim>\<open>uint64_t\<close>. The order on words is the unsigned one, so \<open>value < 0\<close> below is
  the comparison the instance makes.
\<close>

definition UINT64_MAX :: u64 where
  "UINT64_MAX = 18446744073709551615"

definition NarrowConvertToUint32_u64 :: "u64 \<Rightarrow> u32" where
  "NarrowConvertToUint32_u64 value =
     (if value < 0 then 0
      else if UINT64_MAX < ucast UINT32_MAX then ucast value
      else if value > ucast UINT32_MAX then UINT32_MAX
      else ucast value)"

text \<open>\<^verbatim>\<open>Timer::TimeLeftInMillis()\<close>: one clock reading.\<close>

definition TimeLeftInMillis :: "Timer \<Rightarrow> u64 \<Rightarrow> u32" where
  "TimeLeftInMillis s now =
     NarrowConvertToUint32_u64 (mMillisStartPeriod s + ucast (mMillisInterval s) - now)"

text \<open>
  In \<^verbatim>\<open>SecToMillis\<close> and \<^verbatim>\<open>MinToMillis\<close> the type \<^verbatim>\<open>T\<close> is
  \<^verbatim>\<open>double\<close>. A floating-point value is finite (given by the rational number it
  denotes), an infinity or a NaN. The conversion of a \<^verbatim>\<open>float\<close> to
  \<^verbatim>\<open>double\<close> is exact, and so is the product with a \<^verbatim>\<open>uint16_t\<close> constant: a
  \<^verbatim>\<open>float\<close> has 24 significant bits and the constant fewer than 16, so the product
  has fewer than 53 and its exponent is far inside the range of a \<^verbatim>\<open>double\<close>.
  The finite values of the model are therefore multiplied as rationals.
\<close>

datatype fp = Finite rat | PlusInf | MinusInf | NaN

text \<open>The comparison \<^verbatim>\<open><\<close> of two floating-point values; false when either is a NaN.\<close>

fun fp_less :: "fp \<Rightarrow> fp \<Rightarrow> bool" where
  "fp_less NaN _ = False"
| "fp_less _ NaN = False"
| "fp_less (Finite x) (Finite y) = (x < y)"
| "fp_less (Finite x) PlusInf = True"
| "fp_less (Finite x) MinusInf = False"
| "fp_less PlusInf _ = False"
| "fp_less MinusInf MinusInf = False"
| "fp_less MinusInf _ = True"

text \<open>A \<^verbatim>\<open>double\<close> times a \<^verbatim>\<open>uint16_t\<close> (promoted to \<^verbatim>\<open>int\<close>, then converted).\<close>

fun fp_times_u16 :: "fp \<Rightarrow> u16 \<Rightarrow> fp" where
  "fp_times_u16 (Finite x) c = Finite (x * of_nat (unat c))"
| "fp_times_u16 PlusInf c = (if c = 0 then NaN else PlusInf)"
| "fp_times_u16 MinusInf c = (if c = 0 then NaN else MinusInf)"
| "fp_times_u16 NaN c = NaN"

text \<open>
  \<^verbatim>\<open>static_cast<uint32_t>\<close> of a \<^verbatim>\<open>double\<close> drops the fractional part; the
  behaviour is undefined (\<open>None\<close>) when the truncated value is not a \<^verbatim>\<open>uint32_t\<close>,
  so for the infinities and NaN as well.
\<close>

definition truncate_toward_zero :: "rat \<Rightarrow> int" where
  "truncate_toward_zero x = (if x < 0 then - \<lfloor>- x\<rfloor> else \<lfloor>x\<rfloor>)"

fun fp_to_u32 :: "fp \<Rightarrow> u32 option" where
  "fp_to_u32 (Finite x) =
     (let t = truncate_toward_zero x
      in if 0 \<le> t \<and> t \<le> 4294967295 then Some (word_of_int t) else None)"
| "fp_to_u32 _ = None"

text \<open>\<^verbatim>\<open>numeric_limits<double>::max()\<close>, which is \<open>(2 ^ 53 - 1) * 2 ^ 971\<close>.\<close>

definition DBL_MAX :: fp where
  "DBL_MAX = Finite ((2 ^ 53 - 1) * 2 ^ 971)"

definition NarrowConvertToUint32_double :: "fp \<Rightarrow> u32 option" where
  "NarrowConvertToUint32_double value =
     (if fp_less value (Finite 0) then Some 0
      else if fp_less DBL_MAX (Finite (of_nat (unat UINT32_MAX))) then fp_to_u32 value
      else if fp_less (Finite (of_nat (unat UINT32_MAX))) value then Some UINT32_MAX
      else fp_to_u32 value)"

definition SEC_TO_MILLIS_MULTI :: u16 where
  "SEC_TO_MILLIS_MULTI = 1000"

definition MIN_TO_MILLIS_MULTI :: u16 where
  "MIN_TO_MILLIS_MULTI = 60000"

text \<open>\<^verbatim>\<open>Timer::SecToMillis(float)\<close> and \<^verbatim>\<open>Timer::MinToMillis(float)\<close>.\<close>

definition SecToMillis :: "fp \<Rightarrow> u32 option" where
  "SecToMillis secondsToConvert =
     NarrowConvertToUint32_double (fp_times_u16 secondsToConvert SEC_TO_MILLIS_MULTI)"

definition MinToMillis :: "fp \<Rightarrow> u32 option" where
  "MinToMillis minutesToConvert =
     NarrowConvertToUint32_double (fp_times_u16 minutesToConvert MIN_TO_MILLIS_MULTI)"

subsection \<open>The conversion as the specification words it\<close>

text \<open>
  The saturating clamp of the specification, on the mathematical value: a negative value
  gives 0, a value above \<open>2 ^ 32 - 1\<close> gives \<open>2 ^ 32 - 1\<close>, and any other value loses
  its fractional part. The remaining values are not negative, so rounding toward zero is
  the floor \<open>\<lfloor>x\<rfloor>\<close> of the library, the greatest integer that is at most \<open>x\<close>.
\<close>

definition spec_clamp_to_u32 :: "rat \<Rightarrow> int" where
  "spec_clamp_to_u32 x =
     (if x < 0 then 0 else if 4294967295 < x then 4294967295 else \<lfloor>x\<rfloor>)"

section \<open>Properties\<close>

subsection \<open>Words read as numbers\<close>

lemma unat_ucast_u32_u64: "unat (ucast (w :: u32) :: u64) = unat w"
proof -
  have "unat w < 2 ^ 32"
    using unsigned_less [of w, where 'a = nat] by simp
  then have "unat w < 2 ^ 64"
    by (rule less_trans) simp
  then show ?thesis
    by (simp add: unsigned_ucast_eq take_bit_nat_eq_self)
qed

lemma uint_word_of_int_u32:
  "0 \<le> t \<Longrightarrow> t \<le> 4294967295 \<Longrightarrow> uint (word_of_int t :: u32) = t"
  by (simp add: uint_word_of_int take_bit_int_eq_self)

text \<open>
  At \<^verbatim>\<open>uint64_t\<close> the test \<^verbatim>\<open>value_ < 0\<close> never holds: the instance is the
  minimum of the unsigned value and \<open>2 ^ 32 - 1\<close>.
\<close>

lemma NarrowConvertToUint32_u64_nat:
  "unat (NarrowConvertToUint32_u64 v) = min (unat v) 4294967295"
proof (cases "unat v \<le> 4294967295")
  case True
  then have "unat v < 2 ^ 32" by simp
  with True show ?thesis
    by (simp add: NarrowConvertToUint32_u64_def UINT64_MAX_def UINT32_MAX_def
        word_less_nat_alt unsigned_ucast_eq take_bit_nat_eq_self)
next
  case False
  then show ?thesis
    by (simp add: NarrowConvertToUint32_u64_def UINT64_MAX_def UINT32_MAX_def
        word_less_nat_alt)
qed

subsection \<open>The elapsed check\<close>


text \<open>
  C3: while the timer is not active, \<^verbatim>\<open>IntervalReached()\<close> returns false whatever
  the start of the period, the interval, the override flag and the clock are, for any
  number of consecutive polls, and the timer is left as it was.
\<close>

theorem C3_inactive_never_reached:
  "\<not> mActivated s \<Longrightarrow>
     IntervalReached s now_check now_reset = (False, s)
     \<and> poll s ts = (replicate (length ts) False, s)"
proof (rule conjI)
  assume inactive: "\<not> mActivated s"
  then show one: "IntervalReached s now_check now_reset = (False, s)"
    by (simp add: IntervalReached_def)
  from inactive show "poll s ts = (replicate (length ts) False, s)"
  proof (induction ts)
    case Nil
    show ?case by simp
  next
    case (Cons t ts)
    obtain c r where t: "t = (c, r)" by (cases t)
    from Cons.prems have "IntervalReached s c r = (False, s)"
      by (simp add: IntervalReached_def)
    with Cons t show ?case by simp
  qed
qed

theorem C3_inactive_never_reached_witness:
  "\<not> mActivated (OverrideIntervalReached (Timer_default 0 0))
   \<and> IntervalReached (OverrideIntervalReached (Timer_default 0 0)) 4294967296 4294967297
       = (False, OverrideIntervalReached (Timer_default 0 0))
   \<and> poll (OverrideIntervalReached (Timer_default 0 0))
         [(5, 5), (4294967296, 4294967297), (18446744073709551615, 0)]
       = ([False, False, False], OverrideIntervalReached (Timer_default 0 0))"
proof -
  have inactive: "\<not> mActivated (OverrideIntervalReached (Timer_default 0 0))"
    by (simp add: OverrideIntervalReached_def Timer_default_def Deactivate_def)
  with C3_inactive_never_reached [OF inactive, of 4294967296 4294967297
      "[(5, 5), (4294967296, 4294967297), (18446744073709551615, 0)]"]
  show ?thesis by simp
qed

text \<open>
  C1: for an active timer and any clock readings, \<^verbatim>\<open>IntervalReached()\<close> returns true
  exactly when the override is pending or the start of the period plus the interval,
  added in unsigned 64-bit arithmetic (so modulo \<open>2 ^ 64\<close>), is less than the clock
  reading of the comparison; when it returns true the start of the period is the clock
  reading of the reset and the override is cleared; otherwise it returns false. With no
  pending override and equal readings this is the statement of the specification.
\<close>

theorem C1_interval_reached:
  "mActivated s \<Longrightarrow>
     (fst (IntervalReached s now_check now_reset) \<longleftrightarrow>
        mOverrideIntervalReached s
        \<or> (unat (mMillisStartPeriod s) + unat (mMillisInterval s)) mod 2 ^ 64 < unat now_check)
     \<and> (fst (IntervalReached s now_check now_reset) \<longrightarrow>
          snd (IntervalReached s now_check now_reset)
            = s\<lparr>mMillisStartPeriod := now_reset, mOverrideIntervalReached := False\<rparr>)"
  by (simp add: IntervalReached_def ResetInterval_def word_less_nat_alt unat_word_ariths
      unat_ucast_u32_u64)

theorem C1_interval_reached_witness:
  "mActivated (Timer_new 1000 7)
   \<and> fst (IntervalReached (Timer_new 1000 7) 1008 1009)
   \<and> snd (IntervalReached (Timer_new 1000 7) 1008 1009) = Timer_new 1000 1009"
  using C1_interval_reached [of "Timer_new 1000 7" 1008 1009]
  by (simp add: Timer_new_def)

text \<open>
  The two sides of the boundary, for a timer with no pending override whose period does
  not end beyond the range of the clock: a poll up to and including the end of the period
  returns false and changes nothing, a poll after it returns true and restarts the period
  at the clock reading of the reset.
\<close>

lemma IntervalReached_not_after:
  assumes "mActivated s" and "\<not> mOverrideIntervalReached s"
    and "unat (mMillisStartPeriod s) + unat (mMillisInterval s) < 2 ^ 64"
    and "unat now_check \<le> unat (mMillisStartPeriod s) + unat (mMillisInterval s)"
  shows "IntervalReached s now_check now_reset = (False, s)"
  using assms
  by (simp add: IntervalReached_def word_less_nat_alt unat_word_ariths unat_ucast_u32_u64)

lemma IntervalReached_after:
  assumes "mActivated s"
    and "unat (mMillisStartPeriod s) + unat (mMillisInterval s) < unat now_check"
  shows "IntervalReached s now_check now_reset
           = (True, s\<lparr>mOverrideIntervalReached := False, mMillisStartPeriod := now_reset\<rparr>)"
proof -
  have "unat now_check < 2 ^ 64"
    using unsigned_less [of now_check, where 'a = nat] by simp
  with assms show ?thesis
    by (simp add: IntervalReached_def ResetInterval_def word_less_nat_alt unat_word_ariths
        unat_ucast_u32_u64)
qed

text \<open>
  C2: the specification has a poll at exactly \<open>I\<close> milliseconds after the reset return true, and
  names the poll at \<open>t = 120000\<close> of a timer of interval 120000 started at \<open>t = 0\<close>.
  The comparison of the code is strict: that poll returns false and leaves the timer
  as it was, and the first poll that returns true is the one at \<open>t = 120001\<close>.
\<close>

theorem C2_poll_at_end_of_interval:
  "IntervalReached (Timer_new 120000 0) 120000 120000 = (False, Timer_new 120000 0)
   \<and> IntervalReached (Timer_new 120000 0) 120001 120001 = (True, Timer_new 120000 120001)"
  by (simp add: IntervalReached_def ResetInterval_def Timer_new_def)

subsection \<open>Resets and the override\<close>

text \<open>
  C4: each operation that sets the start of the period, that is \<^verbatim>\<open>Activate()\<close>,
  \<^verbatim>\<open>Deactivate()\<close>, \<^verbatim>\<open>ResetInterval()\<close>, \<^verbatim>\<open>SetInterval()\<close> with
  \<^verbatim>\<open>TIMER_RESET\<close> and a call of \<^verbatim>\<open>IntervalReached()\<close> that returns true,
  leaves the override cleared.
\<close>

theorem C4_reset_clears_override:
  "(mMillisStartPeriod (Activate s now) = now \<and> \<not> mOverrideIntervalReached (Activate s now))
   \<and> (mMillisStartPeriod (Deactivate s now) = now
        \<and> \<not> mOverrideIntervalReached (Deactivate s now))
   \<and> (mMillisStartPeriod (ResetInterval s now) = now
        \<and> \<not> mOverrideIntervalReached (ResetInterval s now))
   \<and> (mMillisStartPeriod (SetInterval s i TIMER_RESET now) = now
        \<and> \<not> mOverrideIntervalReached (SetInterval s i TIMER_RESET now))
   \<and> (fst (IntervalReached s now_check now) \<longrightarrow>
          mMillisStartPeriod (snd (IntervalReached s now_check now)) = now
          \<and> \<not> mOverrideIntervalReached (snd (IntervalReached s now_check now)))"
  by (simp add: Activate_def Deactivate_def ResetInterval_def SetInterval_def
      IntervalReached_def)

theorem C4_reset_clears_override_witness:
  "fst (IntervalReached (OverrideIntervalReached (Timer_new 1000 0)) 5 6)
   \<and> mMillisStartPeriod (snd (IntervalReached (OverrideIntervalReached (Timer_new 1000 0)) 5 6)) = 6
   \<and> \<not> mOverrideIntervalReached
         (snd (IntervalReached (OverrideIntervalReached (Timer_new 1000 0)) 5 6))"
proof -
  have fired: "fst (IntervalReached (OverrideIntervalReached (Timer_new 1000 0)) 5 6)"
    by (simp add: IntervalReached_def OverrideIntervalReached_def Timer_new_def)
  with C4_reset_clears_override [of "OverrideIntervalReached (Timer_new 1000 0)" 6 _ 5]
  show ?thesis by blast
qed

text \<open>
  C5: \<^verbatim>\<open>SetInterval(i, mode)\<close> stores the interval \<open>i\<close> and leaves the timer active
  whatever the state before; with \<^verbatim>\<open>TIMER_RESET\<close> the period starts at the clock
  reading and the override is cleared, with \<^verbatim>\<open>TIMER_CONTINUE\<close> the start of the
  period is the one before the call.
\<close>

theorem C5_set_interval:
  "mMillisInterval (SetInterval s i mode now) = i
   \<and> mActivated (SetInterval s i mode now)
   \<and> mMillisStartPeriod (SetInterval s i TIMER_RESET now) = now
   \<and> \<not> mOverrideIntervalReached (SetInterval s i TIMER_RESET now)
   \<and> mMillisStartPeriod (SetInterval s i TIMER_CONTINUE now) = mMillisStartPeriod s"
  by (simp add: SetInterval_def ResetInterval_def TIMER_RESET_def TIMER_CONTINUE_def Let_def)

theorem C5_set_interval_witness:
  "mMillisInterval (SetInterval (Timer_default 3 4) 250 TIMER_CONTINUE 9) = 250
   \<and> mActivated (SetInterval (Timer_default 3 4) 250 TIMER_CONTINUE 9)
   \<and> mMillisStartPeriod (SetInterval (Timer_default 3 4) 250 TIMER_RESET 9) = 9
   \<and> \<not> mOverrideIntervalReached (SetInterval (Timer_default 3 4) 250 TIMER_RESET 9)
   \<and> mMillisStartPeriod (SetInterval (Timer_default 3 4) 250 TIMER_CONTINUE 9) = 4"
  using C5_set_interval [of "Timer_default 3 4" 250 TIMER_CONTINUE 9]
  by (simp add: Timer_default_def Deactivate_def ResetInterval_def)

text \<open>
  C6: the specification has \<^verbatim>\<open>OverrideIntervalReached()\<close> on an inactive timer change nothing
  that can be observed later, also after \<^verbatim>\<open>SetInterval()\<close> with
  \<^verbatim>\<open>TIMER_CONTINUE\<close> has made the timer active again. The code stores the flag
  whether the timer is active or not, and \<^verbatim>\<open>SetInterval()\<close> with
  \<^verbatim>\<open>TIMER_CONTINUE\<close> does not clear it: on a default-constructed timer the next poll
  returns true with the override and false without it, at the same clock readings.
\<close>

theorem C6_override_on_inactive_timer_survives:
  "\<not> mActivated (Timer_default 0 0)
   \<and> fst (IntervalReached
            (SetInterval (OverrideIntervalReached (Timer_default 0 0)) 1000 TIMER_CONTINUE 0)
            0 0)
   \<and> \<not> fst (IntervalReached (SetInterval (Timer_default 0 0) 1000 TIMER_CONTINUE 0) 0 0)"
  by (simp add: IntervalReached_def SetInterval_def OverrideIntervalReached_def
      Timer_default_def Timer_new_def Deactivate_def ResetInterval_def
      TIMER_RESET_def TIMER_CONTINUE_def)

text \<open>
  The part of that statement about an active timer: after \<^verbatim>\<open>OverrideIntervalReached()\<close>
  the next poll returns true at any clock reading.
\<close>

lemma override_on_active_timer_fires:
  "mActivated s \<Longrightarrow> fst (IntervalReached (OverrideIntervalReached s) now_check now_reset)"
  by (simp add: IntervalReached_def OverrideIntervalReached_def)

text \<open>
  C9: \<^verbatim>\<open>Deactivate()\<close> (at any time) followed by \<^verbatim>\<open>Activate()\<close> at time \<open>t\<close>
  gives the timer that \<^verbatim>\<open>Timer(I)\<close> constructs at time \<open>t\<close>, where \<open>I\<close> is the
  interval of the timer: all four members are equal, so every later call behaves alike.
\<close>

theorem C9_deactivate_activate_is_fresh:
  "Activate (Deactivate s t0) t = Timer_new (mMillisInterval s) t
   \<and> mActivated (Activate (Deactivate s t0) t)
   \<and> \<not> mOverrideIntervalReached (Activate (Deactivate s t0) t)
   \<and> mMillisStartPeriod (Activate (Deactivate s t0) t) = t
   \<and> mMillisInterval (Activate (Deactivate s t0) t) = mMillisInterval s"
  by (simp add: Activate_def Deactivate_def ResetInterval_def Timer_new_def)

theorem C9_deactivate_activate_is_fresh_witness:
  "Activate (Deactivate (OverrideIntervalReached (Timer_new 500 1)) 20) 30 = Timer_new 500 30"
  using C9_deactivate_activate_is_fresh [of "OverrideIntervalReached (Timer_new 500 1)" 20 30]
  by (simp add: OverrideIntervalReached_def Timer_new_def)

text \<open>
  C10: whenever \<^verbatim>\<open>IntervalReached()\<close> returns false, because the timer is inactive
  or because no override is pending and the interval has not elapsed, the four members
  are what they were before the call.
\<close>

theorem C10_false_changes_nothing:
  "\<not> fst (IntervalReached s now_check now_reset) \<Longrightarrow>
     snd (IntervalReached s now_check now_reset) = s"
  by (simp add: IntervalReached_def split: if_splits)

theorem C10_false_changes_nothing_witness:
  "\<not> fst (IntervalReached (Timer_new 1000 0) 999 999)
   \<and> snd (IntervalReached (Timer_new 1000 0) 999 999) = Timer_new 1000 0"
proof -
  have quiet: "\<not> fst (IntervalReached (Timer_new 1000 0) 999 999)"
    by (simp add: IntervalReached_def Timer_new_def)
  with C10_false_changes_nothing [OF quiet] show ?thesis by simp
qed

subsection \<open>Time left\<close>

text \<open>
  While the clock has not passed the end of the period (and the period does not end beyond
  the range of the clock), \<^verbatim>\<open>TimeLeftInMillis()\<close> is the time to the end of the
  period, at most \<open>2 ^ 32 - 1\<close>.
\<close>

lemma TimeLeftInMillis_within:
  assumes "unat now \<le> unat (mMillisStartPeriod s) + unat (mMillisInterval s)"
    and "unat (mMillisStartPeriod s) + unat (mMillisInterval s) < 2 ^ 64"
  shows "unat (TimeLeftInMillis s now)
           = min (unat (mMillisStartPeriod s) + unat (mMillisInterval s) - unat now) 4294967295"
proof -
  let ?a = "mMillisStartPeriod s + ucast (mMillisInterval s)"
  from assms have a: "unat ?a = unat (mMillisStartPeriod s) + unat (mMillisInterval s)"
    by (simp add: unat_word_ariths unat_ucast_u32_u64)
  with assms have "unat (?a - now) = unat ?a - unat now"
    by (simp add: unat_sub_if_size)
  with a show ?thesis
    by (simp add: TimeLeftInMillis_def NarrowConvertToUint32_u64_nat)
qed

text \<open>
  Once the clock has passed the end of the period, by no more than \<open>2 ^ 64 - 2 ^ 32\<close>
  milliseconds, the unsigned difference wraps to a value of at least \<open>2 ^ 32\<close> and the
  result is \<^verbatim>\<open>numeric_limits<uint32_t>::max()\<close>.
\<close>

lemma TimeLeftInMillis_overdue:
  assumes late: "unat (mMillisStartPeriod s) + unat (mMillisInterval s) < unat now"
    and far: "unat now - (unat (mMillisStartPeriod s) + unat (mMillisInterval s))
                \<le> 2 ^ 64 - 2 ^ 32"
  shows "TimeLeftInMillis s now = UINT32_MAX"
proof -
  let ?a = "mMillisStartPeriod s + ucast (mMillisInterval s)"
  have now: "unat now < 2 ^ 64"
    using unsigned_less [of now, where 'a = nat] by simp
  with late have a: "unat ?a = unat (mMillisStartPeriod s) + unat (mMillisInterval s)"
    by (simp add: unat_word_ariths unat_ucast_u32_u64)
  with late have "unat (?a - now) = unat ?a + 2 ^ 64 - unat now"
    by (simp add: unat_sub_if_size word_size)
  with a far late have "4294967295 < unat (?a - now)"
    by simp
  then have "unat (TimeLeftInMillis s now) = unat UINT32_MAX"
    by (simp add: TimeLeftInMillis_def NarrowConvertToUint32_u64_nat UINT32_MAX_def)
  then show ?thesis
    by (simp only: word_unat_eq_iff)
qed

text \<open>
  C7: the specification has \<^verbatim>\<open>TimeLeftInMillis()\<close> report 0 once the clock is past the end
  of the period. For a timer of interval 1000 started at 0, the code returns 600 at clock
  400, 0 at clock 1000, and \<open>2 ^ 32 - 1\<close> at clock 2000, where the specification
  says 0.
\<close>

theorem C7_time_left_past_the_period:
  "TimeLeftInMillis (Timer_new 1000 0) 400 = 600
   \<and> TimeLeftInMillis (Timer_new 1000 0) 1000 = 0
   \<and> TimeLeftInMillis (Timer_new 1000 0) 2000 = 4294967295"
  by (simp add: TimeLeftInMillis_def Timer_new_def NarrowConvertToUint32_u64_def
      UINT64_MAX_def UINT32_MAX_def)

subsection \<open>Unit helpers\<close>

text \<open>The cast of a value that is not negative is its floor.\<close>

lemma truncate_toward_zero_nonneg: "0 \<le> x \<Longrightarrow> truncate_toward_zero x = \<lfloor>x\<rfloor>"
  by (simp add: truncate_toward_zero_def)

lemma floor_u32_range:
  "0 \<le> x \<Longrightarrow> x \<le> 4294967295 \<Longrightarrow> 0 \<le> \<lfloor>x :: rat\<rfloor> \<and> \<lfloor>x\<rfloor> \<le> 4294967295"
  by (simp add: floor_le_iff le_floor_iff)

text \<open>
  At \<^verbatim>\<open>double\<close>, on a finite value, the template computes the clamp of the
  specification.
\<close>

lemma NarrowConvertToUint32_double_Finite:
  "map_option uint (NarrowConvertToUint32_double (Finite x)) = Some (spec_clamp_to_u32 x)"
proof -
  consider (neg) "x < 0" | (big) "4294967295 < x" | (mid) "0 \<le> x" "x \<le> 4294967295"
    by linarith
  then show ?thesis
  proof cases
    case neg
    then show ?thesis
      by (simp add: NarrowConvertToUint32_double_def spec_clamp_to_u32_def)
  next
    case big
    then show ?thesis
      by (simp add: NarrowConvertToUint32_double_def spec_clamp_to_u32_def DBL_MAX_def
          UINT32_MAX_def)
  next
    case mid
    with floor_u32_range [of x] uint_word_of_int_u32 [of "\<lfloor>x\<rfloor>"]
    show ?thesis
      by (simp add: NarrowConvertToUint32_double_def spec_clamp_to_u32_def DBL_MAX_def
          UINT32_MAX_def truncate_toward_zero_nonneg)
  qed
qed

text \<open>
  C8: \<^verbatim>\<open>SecToMillis\<close> multiplies by 1000 and \<^verbatim>\<open>MinToMillis\<close> by 60000, and both
  return the clamp of the product: 0 for a negative product, \<open>2 ^ 32 - 1\<close> for a product
  above \<open>2 ^ 32 - 1\<close> (the positive infinity included), and otherwise the product without
  its fractional part, that is the greatest integer \<open>n\<close> with \<open>n \<le> product\<close>. In
  particular \<^verbatim>\<open>SecToMillis(5.0)\<close> is 5000 and \<^verbatim>\<open>MinToMillis(2.0)\<close> is 120000;
  the \<^verbatim>\<open>float\<close> \<open>2415919 / 2 ^ 28\<close> has the product 8.9999986 and gives 8, and
  \<open>3 / 1024\<close> minutes have the product 175.78125 and give 175.
\<close>

theorem C8_unit_helpers:
  "map_option uint (SecToMillis (Finite x)) = Some (spec_clamp_to_u32 (x * 1000))
   \<and> map_option uint (MinToMillis (Finite x)) = Some (spec_clamp_to_u32 (x * 60000))
   \<and> (0 \<le> z * 1000 \<and> z * 1000 \<le> 4294967295 \<longrightarrow>
        (\<exists>w. SecToMillis (Finite z) = Some w
           \<and> of_int (uint w) \<le> z * 1000 \<and> z * 1000 < of_int (uint w) + 1))
   \<and> (0 \<le> z * 60000 \<and> z * 60000 \<le> 4294967295 \<longrightarrow>
        (\<exists>w. MinToMillis (Finite z) = Some w
           \<and> of_int (uint w) \<le> z * 60000 \<and> z * 60000 < of_int (uint w) + 1))
   \<and> (n * 1000 < 0 \<longrightarrow> SecToMillis (Finite n) = Some 0)
   \<and> (n * 60000 < 0 \<longrightarrow> MinToMillis (Finite n) = Some 0)
   \<and> SecToMillis (Finite 5) = Some 5000
   \<and> MinToMillis (Finite 2) = Some 120000
   \<and> SecToMillis (Finite (2415919 / 268435456)) = Some 8
   \<and> MinToMillis (Finite (3 / 1024)) = Some 175
   \<and> (4294967295 < y * 1000 \<longrightarrow> SecToMillis (Finite y) = Some UINT32_MAX)
   \<and> (4294967295 < y * 60000 \<longrightarrow> MinToMillis (Finite y) = Some UINT32_MAX)
   \<and> SecToMillis PlusInf = Some UINT32_MAX
   \<and> MinToMillis PlusInf = Some UINT32_MAX
   \<and> SecToMillis MinusInf = Some 0
   \<and> MinToMillis MinusInf = Some 0"
proof -
  have sec: "map_option uint (SecToMillis (Finite v)) = Some (spec_clamp_to_u32 (v * 1000))"
    for v
    by (simp add: SecToMillis_def SEC_TO_MILLIS_MULTI_def NarrowConvertToUint32_double_Finite)
  have mins: "map_option uint (MinToMillis (Finite v)) = Some (spec_clamp_to_u32 (v * 60000))"
    for v
    by (simp add: MinToMillis_def MIN_TO_MILLIS_MULTI_def NarrowConvertToUint32_double_Finite)
  have between: "\<exists>w. r = Some w \<and> of_int (uint w) \<le> p \<and> p < of_int (uint w) + 1"
    if "map_option uint r = Some (spec_clamp_to_u32 p)" and "0 \<le> p" and "p \<le> 4294967295"
    for r :: "u32 option" and p :: rat
  proof -
    from that obtain w where w: "r = Some w" and "uint w = \<lfloor>p\<rfloor>"
      by (cases r) (auto simp: spec_clamp_to_u32_def)
    with floor_correct [of p] have "of_int (uint w) \<le> p" and "p < of_int (uint w) + 1"
      by simp_all
    with w show ?thesis by blast
  qed
  have sec_frac: "\<exists>w. SecToMillis (Finite z) = Some w
      \<and> of_int (uint w) \<le> z * 1000 \<and> z * 1000 < of_int (uint w) + 1"
    if "0 \<le> z * 1000 \<and> z * 1000 \<le> 4294967295"
    using between [OF sec [of z]] that by blast
  have min_frac: "\<exists>w. MinToMillis (Finite z) = Some w
      \<and> of_int (uint w) \<le> z * 60000 \<and> z * 60000 < of_int (uint w) + 1"
    if "0 \<le> z * 60000 \<and> z * 60000 \<le> 4294967295"
    using between [OF mins [of z]] that by blast
  have sec_neg: "SecToMillis (Finite n) = Some 0" if "n * 1000 < 0"
    using that
    by (simp add: SecToMillis_def SEC_TO_MILLIS_MULTI_def NarrowConvertToUint32_double_def)
  have min_neg: "MinToMillis (Finite n) = Some 0" if "n * 60000 < 0"
    using that
    by (simp add: MinToMillis_def MIN_TO_MILLIS_MULTI_def NarrowConvertToUint32_double_def)
  have sec5: "SecToMillis (Finite 5) = Some 5000"
    by (simp add: SecToMillis_def SEC_TO_MILLIS_MULTI_def NarrowConvertToUint32_double_def
        DBL_MAX_def UINT32_MAX_def truncate_toward_zero_def)
  have min2: "MinToMillis (Finite 2) = Some 120000"
    by (simp add: MinToMillis_def MIN_TO_MILLIS_MULTI_def NarrowConvertToUint32_double_def
        DBL_MAX_def UINT32_MAX_def truncate_toward_zero_def)
  have "\<lfloor>301989875 / 33554432 :: rat\<rfloor> = 8"
    by (simp add: floor_eq_iff)
  then have sec8: "SecToMillis (Finite (2415919 / 268435456)) = Some 8"
    by (simp add: SecToMillis_def SEC_TO_MILLIS_MULTI_def NarrowConvertToUint32_double_def
        DBL_MAX_def UINT32_MAX_def truncate_toward_zero_def)
  have "\<lfloor>5625 / 32 :: rat\<rfloor> = 175"
    by (simp add: floor_eq_iff)
  then have min175: "MinToMillis (Finite (3 / 1024)) = Some 175"
    by (simp add: MinToMillis_def MIN_TO_MILLIS_MULTI_def NarrowConvertToUint32_double_def
        DBL_MAX_def UINT32_MAX_def truncate_toward_zero_def)
  have sec_big: "SecToMillis (Finite y) = Some UINT32_MAX" if "4294967295 < y * 1000"
    using that
    by (simp add: SecToMillis_def SEC_TO_MILLIS_MULTI_def NarrowConvertToUint32_double_def
        DBL_MAX_def UINT32_MAX_def)
  have min_big: "MinToMillis (Finite y) = Some UINT32_MAX" if "4294967295 < y * 60000"
    using that
    by (simp add: MinToMillis_def MIN_TO_MILLIS_MULTI_def NarrowConvertToUint32_double_def
        DBL_MAX_def UINT32_MAX_def)
  have sec_pinf: "SecToMillis PlusInf = Some UINT32_MAX"
    by (simp add: SecToMillis_def SEC_TO_MILLIS_MULTI_def NarrowConvertToUint32_double_def
        DBL_MAX_def UINT32_MAX_def)
  have min_pinf: "MinToMillis PlusInf = Some UINT32_MAX"
    by (simp add: MinToMillis_def MIN_TO_MILLIS_MULTI_def NarrowConvertToUint32_double_def
        DBL_MAX_def UINT32_MAX_def)
  have sec_minf: "SecToMillis MinusInf = Some 0"
    by (simp add: SecToMillis_def SEC_TO_MILLIS_MULTI_def NarrowConvertToUint32_double_def)
  have min_minf: "MinToMillis MinusInf = Some 0"
    by (simp add: MinToMillis_def MIN_TO_MILLIS_MULTI_def NarrowConvertToUint32_double_def)
  from sec mins sec_frac min_frac sec_neg min_neg sec5 min2 sec8 min175 sec_big min_big
    sec_pinf min_pinf sec_minf min_minf
  show ?thesis by blast
qed

theorem C8_unit_helpers_witness:
  "map_option uint (SecToMillis (Finite (3 / 2))) = Some 1500
   \<and> (0 :: rat) \<le> 7 / 2048 * 1000 \<and> (7 / 2048 * 1000 :: rat) \<le> 4294967295
   \<and> SecToMillis (Finite (7 / 2048)) = Some 3
   \<and> MinToMillis (Finite (7 / 2048)) = Some 205
   \<and> (- 1 / 4096 * 1000 :: rat) < 0
   \<and> SecToMillis (Finite (- 1 / 4096)) = Some 0
   \<and> (4294967295 :: rat) < 4294968 * 1000
   \<and> SecToMillis (Finite 4294968) = Some 4294967295
   \<and> MinToMillis (Finite 4294968) = Some 4294967295"
proof -
  note inst = C8_unit_helpers [of "3 / 2" "7 / 2048" "- 1 / 4096" 4294968]
  have three: "w = 3" if "of_int (uint w) \<le> (7 / 2048 * 1000 :: rat)"
    and "(7 / 2048 * 1000 :: rat) < of_int (uint w) + 1" for w :: u32
  proof -
    from that have "\<lfloor>7 / 2048 * 1000 :: rat\<rfloor> = uint w"
      by (simp add: floor_eq_iff)
    moreover have "\<lfloor>7 / 2048 * 1000 :: rat\<rfloor> = 3"
      by (simp add: floor_eq_iff)
    ultimately have "uint w = uint (3 :: u32)" by simp
    then show ?thesis by (simp only: word_uint_eq_iff)
  qed
  have two05: "w = 205" if "of_int (uint w) \<le> (7 / 2048 * 60000 :: rat)"
    and "(7 / 2048 * 60000 :: rat) < of_int (uint w) + 1" for w :: u32
  proof -
    from that have "\<lfloor>7 / 2048 * 60000 :: rat\<rfloor> = uint w"
      by (simp add: floor_eq_iff)
    moreover have "\<lfloor>7 / 2048 * 60000 :: rat\<rfloor> = 205"
      by (simp add: floor_eq_iff)
    ultimately have "uint w = uint (205 :: u32)" by simp
    then show ?thesis by (simp only: word_uint_eq_iff)
  qed
  have range: "(0 :: rat) \<le> 7 / 2048 * 1000 \<and> (7 / 2048 * 1000 :: rat) \<le> 4294967295"
    "(0 :: rat) \<le> 7 / 2048 * 60000 \<and> (7 / 2048 * 60000 :: rat) \<le> 4294967295"
    "(- 1 / 4096 * 1000 :: rat) < 0" "(4294967295 :: rat) < 4294968 * 1000"
    "(4294967295 :: rat) < 4294968 * 60000"
    by simp_all
  from inst range obtain w1 where "SecToMillis (Finite (7 / 2048)) = Some w1"
    and "of_int (uint w1) \<le> (7 / 2048 * 1000 :: rat)"
    and "(7 / 2048 * 1000 :: rat) < of_int (uint w1) + 1"
    by blast
  with three have s3: "SecToMillis (Finite (7 / 2048)) = Some 3" by blast
  from inst range obtain w2 where "MinToMillis (Finite (7 / 2048)) = Some w2"
    and "of_int (uint w2) \<le> (7 / 2048 * 60000 :: rat)"
    and "(7 / 2048 * 60000 :: rat) < of_int (uint w2) + 1"
    by blast
  with two05 have m205: "MinToMillis (Finite (7 / 2048)) = Some 205" by blast
  from inst have first: "map_option uint (SecToMillis (Finite (3 / 2))) = Some 1500"
    by (simp add: spec_clamp_to_u32_def)
  from inst range have rest: "SecToMillis (Finite (- 1 / 4096)) = Some 0"
    "SecToMillis (Finite 4294968) = Some 4294967295"
    "MinToMillis (Finite 4294968) = Some 4294967295"
    by (simp_all add: UINT32_MAX_def)
  from first s3 m205 rest range show ?thesis by blast
qed

end
